theory Spec2Isabelle
  imports Main
begin

section \<open>Python strings\<close>

text \<open>
  Strings are lists of characters, read as ASCII code points. The three library
  functions the validators call are written out for ASCII: \<open>str.strip()\<close> removes
  leading and trailing white space (\<open>str.isspace\<close>: code points 9 to 13, 28 to 31 and 32),
  \<open>str.lower()\<close> maps \<open>A\<close> to \<open>Z\<close> onto \<open>a\<close> to \<open>z\<close>, and \<open>str.isalnum()\<close> holds
  of a non-empty string of letters and digits.
\<close>

definition py_isspace :: "char \<Rightarrow> bool" where
  "py_isspace c =
     (let k = (of_char c :: nat) in (9 \<le> k \<and> k \<le> 13) \<or> (28 \<le> k \<and> k \<le> 32))"

definition py_strip :: "string \<Rightarrow> string" where
  "py_strip s = rev (dropWhile py_isspace (rev (dropWhile py_isspace s)))"

definition lower_char :: "char \<Rightarrow> char" where
  "lower_char c =
     (let k = (of_char c :: nat) in if 65 \<le> k \<and> k \<le> 90 then char_of (k + 32) else c)"

definition py_lower :: "string \<Rightarrow> string" where
  "py_lower s = map lower_char s"

definition alnum_char :: "char \<Rightarrow> bool" where
  "alnum_char c =
     (let k = (of_char c :: nat)
      in (48 \<le> k \<and> k \<le> 57) \<or> (65 \<le> k \<and> k \<le> 90) \<or> (97 \<le> k \<and> k \<le> 122))"

definition py_isalnum :: "string \<Rightarrow> bool" where
  "py_isalnum s = (s \<noteq> [] \<and> list_all alnum_char s)"

text \<open>\<open>sep.join(xs)\<close>.\<close>

fun py_join :: "string \<Rightarrow> string list \<Rightarrow> string" where
  "py_join sep [] = []"
| "py_join sep [x] = x"
| "py_join sep (x # y # ys) = x @ sep @ py_join sep (y # ys)"

text \<open>\<open>str(n)\<close> of an integer, as an f-string formats it.\<close>

fun str_nat :: "nat \<Rightarrow> string" where
  "str_nat n =
     (if n < 10 then [char_of (48 + n)] else str_nat (n div 10) @ [char_of (48 + n mod 10)])"

declare str_nat.simps [simp del]

definition str_int :: "int \<Rightarrow> string" where
  "str_int i = (if i < 0 then CHR ''-'' # str_nat (nat (- i)) else str_nat (nat i))"

text \<open>The truth value of an \<open>Optional[str]\<close>: \<open>None\<close> and the empty string are false.\<close>

definition truthy :: "string option \<Rightarrow> bool" where
  "truthy s = (case s of None \<Rightarrow> False | Some t \<Rightarrow> t \<noteq> [])"

section \<open>Exceptions\<close>

text \<open>
  A \<open>ValueError\<close> carries its message. A pydantic \<open>ValidationError\<close> carries the model's
  name and, for each field whose validator raised, the field and the validator's message
  (pydantic runs the validators of all fields and collects their errors). A \<open>TypeError\<close>
  is what comparing a timezone-naive with a timezone-aware \<open>datetime\<close> raises. A
  \<open>RedisError\<close> stands for whatever the store connection raises.
\<close>

datatype exn =
    ValueError string
  | ValidationError string "(string \<times> string) list"
  | TypeError string
  | RedisError string

section \<open>Value objects\<close>

subsection \<open>DeviceToken (domain/value_objects/device_token.py)\<close>

record device_token =
  token_value :: string
  platform :: string

definition validate_token :: "string \<Rightarrow> string + string" where
  "validate_token v =
     (if v = [] \<or> py_strip v = [] then Inl ''Device token cannot be empty''
      else if length (py_strip v) < 32 then Inl ''Device token appears to be too short''
      else Inr (py_strip v))"

definition validate_platform :: "string \<Rightarrow> string + string" where
  "validate_platform v =
     (if py_lower v \<notin> set [''android'', ''ios'', ''web'']
      then Inl ''Platform must be one of: ['android', 'ios', 'web']''
      else Inr (py_lower v))"

text \<open>The errors of a model's fields, in field order.\<close>

definition field_error :: "string \<Rightarrow> string + 'a \<Rightarrow> (string \<times> string) list" where
  "field_error field r = (case r of Inl m \<Rightarrow> [(field, m)] | Inr _ \<Rightarrow> [])"

text \<open>\<open>DeviceToken(value=v, platform=p)\<close>.\<close>

definition DeviceToken_init :: "string \<Rightarrow> string \<Rightarrow> exn + device_token" where
  "DeviceToken_init v p =
     (case (validate_token v, validate_platform p) of
        (Inr v', Inr p') \<Rightarrow> Inr \<lparr>token_value = v', platform = p'\<rparr>
      | (rv, rp) \<Rightarrow>
          Inl (ValidationError ''DeviceToken''
                 (field_error ''value'' rv @ field_error ''platform'' rp)))"

subsection \<open>DeviceTokenList\<close>

record device_token_list =
  tokens :: "device_token list"
  max_tokens :: int

text \<open>
  The validator of the field \<open>tokens\<close>. Its second argument \<open>values\<close> is the dictionary of
  the fields pydantic has validated before this one; \<open>values.get("max_tokens", 500)\<close>
  reads the limit from it.
\<close>

definition validate_tokens ::
  "device_token list \<Rightarrow> (string \<rightharpoonup> int) \<Rightarrow> string + device_token list" where
  "validate_tokens v values =
     (if v = [] then Inl ''At least one device token is required''
      else
        let max_tokens = (case values ''max_tokens'' of None \<Rightarrow> 500 | Some m \<Rightarrow> m) in
        if int (length v) > max_tokens
        then Inl (''Maximum '' @ str_int max_tokens @ '' tokens allowed per request'')
        else
          let token_values = map token_value v in
          if length token_values \<noteq> card (set token_values)
          then Inl ''Duplicate device tokens are not allowed''
          else Inr v)"

text \<open>
  \<open>DeviceTokenList(tokens=ts, max_tokens=m)\<close>. Pydantic validates the fields in the order
  the class declares them, and hands a validator the fields validated so far. The class
  declares \<open>tokens\<close> first and \<open>max_tokens\<close> second, so the validator of \<open>tokens\<close> runs on
  an empty \<open>values\<close>; \<open>max_tokens\<close> has no validator of its own.
\<close>

definition DeviceTokenList_init :: "device_token list \<Rightarrow> int \<Rightarrow> exn + device_token_list" where
  "DeviceTokenList_init ts m =
     (case validate_tokens ts Map.empty of
        Inl msg \<Rightarrow> Inl (ValidationError ''DeviceTokenList'' [(''tokens'', msg)])
      | Inr v \<Rightarrow> Inr \<lparr>tokens = v, max_tokens = m\<rparr>)"

subsection \<open>Topic subscription lists (domain/value_objects/topic.py, application/dto/notification_request.py)\<close>

record topic =
  name :: string
  description :: "string option"

text \<open>
  \<open>TopicSubscription.validate_device_tokens\<close> and
  \<open>TopicSubscriptionRequest.validate_device_tokens\<close> have the same body. \<open>list(set(v))\<close>
  holds each element of \<open>v\<close> once, in an order Python does not specify; \<open>remdups\<close> stands
  for it, and nothing below depends on the order.
\<close>

definition TopicSubscription_validate_device_tokens :: "string list \<Rightarrow> string + string list" where
  "TopicSubscription_validate_device_tokens v =
     (if v = [] then Inl ''At least one device token is required''
      else if length v > 1000 then Inl ''Maximum 1000 device tokens per topic subscription''
      else
        let unique_tokens = remdups v in
        if length unique_tokens \<noteq> length v
        then Inl ''Duplicate device tokens are not allowed''
        else Inr unique_tokens)"

definition TopicSubscriptionRequest_validate_device_tokens ::
  "string list \<Rightarrow> string + string list" where
  "TopicSubscriptionRequest_validate_device_tokens v =
     (if v = [] then Inl ''At least one device token is required''
      else if length v > 1000 then Inl ''Maximum 1000 device tokens per topic subscription''
      else
        let unique_tokens = remdups v in
        if length unique_tokens \<noteq> length v
        then Inl ''Duplicate device tokens are not allowed''
        else Inr unique_tokens)"

subsection \<open>NotificationType (domain/value_objects/notification_type.py)\<close>

record notification_type =
  type_value :: string
  template_id :: "string option"
  type_priority :: string
  type_ttl :: "int option"

definition NotificationTypeEnum :: "string list" where
  "NotificationTypeEnum = [''alert'', ''silent'', ''custom'', ''promotional'', ''transactional'']"

definition validate_notification_type :: "string \<Rightarrow> string + string" where
  "validate_notification_type v =
     (if v = [] \<or> py_strip v = [] then Inl ''Notification type cannot be empty''
      else if py_lower v \<in> set NotificationTypeEnum then Inr (py_lower v)
      else if \<not> py_isalnum (filter (\<lambda>c. c \<noteq> CHR ''-'') (filter (\<lambda>c. c \<noteq> CHR ''_'') v))
      then Inl ''Custom notification type must be alphanumeric''
      else Inr (py_lower v))"

definition validate_priority :: "string \<Rightarrow> string + string" where
  "validate_priority v =
     (if py_lower v \<notin> set [''high'', ''normal'', ''low'']
      then Inl ''Priority must be one of: ['high', 'normal', 'low']''
      else Inr (py_lower v))"

text \<open>\<open>NotificationType(value=v, priority=p)\<close>.\<close>

definition NotificationType_init :: "string \<Rightarrow> string \<Rightarrow> exn + notification_type" where
  "NotificationType_init v p =
     (case (validate_notification_type v, validate_priority p) of
        (Inr v', Inr p') \<Rightarrow>
          Inr \<lparr>type_value = v', template_id = None, type_priority = p', type_ttl = None\<rparr>
      | (rv, rp) \<Rightarrow>
          Inl (ValidationError ''NotificationType''
                 (field_error ''value'' rv @ field_error ''priority'' rp)))"

record template_config =
  requires_title :: bool
  requires_body :: bool
  supports_data :: bool
  default_priority :: string

definition get_template_config :: "notification_type \<Rightarrow> template_config" where
  "get_template_config t =
     (if type_value t = ''alert'' then
        \<lparr>requires_title = True, requires_body = True, supports_data = True,
         default_priority = ''high''\<rparr>
      else if type_value t = ''silent'' then
        \<lparr>requires_title = False, requires_body = False, supports_data = True,
         default_priority = ''normal''\<rparr>
      else if type_value t = ''custom'' then
        \<lparr>requires_title = False, requires_body = False, supports_data = True,
         default_priority = ''normal''\<rparr>
      else
        \<lparr>requires_title = True, requires_body = True, supports_data = True,
         default_priority = ''normal''\<rparr>)"

section \<open>The Notification entity (domain/entities/notification.py)\<close>

text \<open>
  An \<open>instant\<close> is a point in time, in microseconds since the epoch. A \<open>datetime\<close> is
  either timezone-aware, and then names an instant, or timezone-naive, and then holds a
  wall-clock reading with no zone. The clock the code reads, \<open>datetime.now(timezone.utc)\<close>,
  is aware; a \<open>scheduled_at\<close> parsed from a request is naive when the request's text has no
  offset. The \<open>data\<close> payload is a list of key and value pairs. The entity's \<open>id\<close> and
  \<open>created_at\<close>, a fresh UUID and the clock's reading, are left out: no operation below
  reads them.
\<close>

type_synonym instant = int

datatype datetime = Aware instant | Naive int

text \<open>
  \<open>d < t\<close> for a \<open>datetime\<close> \<open>d\<close> and an aware \<open>t\<close>: Python compares the instants of two
  aware values and raises \<open>TypeError\<close> when \<open>d\<close> is naive.
\<close>

definition datetime_lt :: "datetime \<Rightarrow> instant \<Rightarrow> exn + bool" where
  "datetime_lt d t =
     (case d of
        Aware i \<Rightarrow> Inr (i < t)
      | Naive _ \<Rightarrow> Inl (TypeError ''can't compare offset-naive and offset-aware datetimes''))"

text \<open>
  \<open>if d and d < limit: errors.append(msg)\<close> for an optional \<open>datetime\<close> \<open>d\<close>: the messages the
  statement appends, or the exception of the comparison.
\<close>

definition time_check :: "datetime option \<Rightarrow> instant \<Rightarrow> string \<Rightarrow> exn + string list" where
  "time_check d limit msg =
     (case d of
        None \<Rightarrow> Inr []
      | Some t \<Rightarrow>
          (case datetime_lt t limit of
             Inl e \<Rightarrow> Inl e
           | Inr b \<Rightarrow> Inr (if b then [msg] else [])))"

record notification =
  notification_type :: notification_type
  title :: "string option"
  body :: "string option"
  data :: "(string \<times> string) list"
  device_tokens :: "device_token_list option"
  topic :: "topic option"
  scheduled_at :: "datetime option"
  expires_at :: "datetime option"
  priority :: string
  collapse_key :: "string option"
  ttl :: "int option"
  status :: string
  sent_count :: int
  failed_count :: int
  error_message :: "string option"

text \<open>
  \<open>validate\<close> reads the clock once; \<open>now\<close> is that reading.
  \<open>current_time.replace(second=0, microsecond=0) - timedelta(minutes=5)\<close> is the start of
  the current minute less five minutes. The five checks of targeting and content append
  their messages; the two comparisons of times follow, and an exception of either leaves
  \<open>validate\<close> without a list.
\<close>

definition validate :: "instant \<Rightarrow> notification \<Rightarrow> exn + string list" where
  "validate now n =
     (let template_config = get_template_config (notification_type n);
          buffer_time = (now div 60000000) * 60000000 - 300000000;
          errors =
            (if device_tokens n = None \<and> topic n = None
             then [''Notification must target either device tokens or a topic''] else [])
          @ (if device_tokens n \<noteq> None \<and> topic n \<noteq> None
             then [''Notification cannot target both device tokens and topic''] else [])
          @ (if requires_title template_config \<and> \<not> truthy (title n)
             then [''Notification type '' @ [CHR 0x27] @ type_value (notification_type n)
                     @ [CHR 0x27] @ '' requires a title'']
             else [])
          @ (if requires_body template_config \<and> \<not> truthy (body n)
             then [''Notification type '' @ [CHR 0x27] @ type_value (notification_type n)
                     @ [CHR 0x27] @ '' requires a body'']
             else [])
          @ (if \<not> supports_data template_config \<and> data n \<noteq> []
             then [''Notification type '' @ [CHR 0x27] @ type_value (notification_type n)
                     @ [CHR 0x27] @ '' does not support custom data'']
             else [])
      in
        (case time_check (scheduled_at n) buffer_time
                ''Scheduled time cannot be in the past (with 5-minute buffer)'' of
           Inl e \<Rightarrow> Inl e
         | Inr s \<Rightarrow>
             (case time_check (expires_at n) now ''Expiration time cannot be in the past'' of
                Inl e \<Rightarrow> Inl e
              | Inr x \<Rightarrow> Inr (errors @ s @ x))))"

definition is_valid :: "instant \<Rightarrow> notification \<Rightarrow> exn + bool" where
  "is_valid now n =
     (case validate now n of Inl e \<Rightarrow> Inl e | Inr errors \<Rightarrow> Inr (length errors = 0))"

text \<open>
  For the statements about \<open>validate\<close>: a time is \<open>naive\<close> when it is set and has no zone,
  and \<open>before\<close> a limit when it is set, aware and earlier.
\<close>

definition naive :: "datetime option \<Rightarrow> bool" where
  "naive d = (case d of Some (Naive _) \<Rightarrow> True | _ \<Rightarrow> False)"


definition get_target_count :: "notification \<Rightarrow> int" where
  "get_target_count n =
     (case device_tokens n of
        Some d \<Rightarrow> int (length (tokens d))
      | None \<Rightarrow> (case topic n of Some _ \<Rightarrow> 1 | None \<Rightarrow> 0))"

text \<open>
  \<open>mark_sent(count)\<close> and \<open>mark_failed(error_message, count)\<close> mutate the entity; the model
  returns the entity after the call. The orchestrator passes the gateway's \<open>error\<close> entry,
  which may be \<open>None\<close>, as the message.
\<close>

definition mark_sent :: "int \<Rightarrow> notification \<Rightarrow> notification" where
  "mark_sent count n =
     (let n1 = n\<lparr>sent_count := sent_count n + count\<rparr>
      in if status n1 = ''pending'' then n1\<lparr>status := ''sent''\<rparr> else n1)"

definition mark_failed :: "string option \<Rightarrow> int \<Rightarrow> notification \<Rightarrow> notification" where
  "mark_failed msg count n =
     n\<lparr>failed_count := failed_count n + count, error_message := msg, status := ''failed''\<rparr>"

text \<open>A sequence of calls on one entity.\<close>

datatype call = MarkSent int | MarkFailed "string option" int

fun apply_call :: "call \<Rightarrow> notification \<Rightarrow> notification" where
  "apply_call (MarkSent k) n = mark_sent k n"
| "apply_call (MarkFailed msg k) n = mark_failed msg k n"

fun apply_calls :: "call list \<Rightarrow> notification \<Rightarrow> notification" where
  "apply_calls [] n = n"
| "apply_calls (c # cs) n = apply_calls cs (apply_call c n)"

fun call_count :: "call \<Rightarrow> int" where
  "call_count (MarkSent k) = k"
| "call_count (MarkFailed msg k) = k"

definition sent_total :: "call list \<Rightarrow> int" where
  "sent_total cs = sum_list (map (\<lambda>c. case c of MarkSent k \<Rightarrow> k | MarkFailed _ _ \<Rightarrow> 0) cs)"

definition failed_total :: "call list \<Rightarrow> int" where
  "failed_total cs = sum_list (map (\<lambda>c. case c of MarkSent _ \<Rightarrow> 0 | MarkFailed _ k \<Rightarrow> k) cs)"

text \<open>The two named constructors; the keyword arguments the callers pass are spelled out.\<close>

definition create_device_notification ::
  "notification_type \<Rightarrow> device_token_list \<Rightarrow> string option \<Rightarrow> string option \<Rightarrow>
   (string \<times> string) list \<Rightarrow> string \<Rightarrow> string option \<Rightarrow> int option \<Rightarrow> datetime option \<Rightarrow>
   notification" where
  "create_device_notification nt dts ti bo da pr ck tt sch =
     \<lparr>notification_type = nt, title = ti, body = bo, data = da,
      device_tokens = Some dts, topic = None, scheduled_at = sch, expires_at = None,
      priority = pr, collapse_key = ck, ttl = tt, status = ''pending'',
      sent_count = 0, failed_count = 0, error_message = None\<rparr>"

definition create_topic_notification ::
  "notification_type \<Rightarrow> topic \<Rightarrow> string option \<Rightarrow> string option \<Rightarrow>
   (string \<times> string) list \<Rightarrow> string \<Rightarrow> string option \<Rightarrow> int option \<Rightarrow> datetime option \<Rightarrow>
   notification" where
  "create_topic_notification nt tp ti bo da pr ck tt sch =
     \<lparr>notification_type = nt, title = ti, body = bo, data = da,
      device_tokens = None, topic = Some tp, scheduled_at = sch, expires_at = None,
      priority = pr, collapse_key = ck, ttl = tt, status = ''pending'',
      sent_count = 0, failed_count = 0, error_message = None\<rparr>"

section \<open>The domain service (domain/services/notification_service.py)\<close>

definition create_notification ::
  "instant \<Rightarrow> notification_type \<Rightarrow> string option \<Rightarrow> string option \<Rightarrow>
   (string \<times> string) list \<Rightarrow> device_token_list option \<Rightarrow> topic option \<Rightarrow> string \<Rightarrow>
   string option \<Rightarrow> int option \<Rightarrow> datetime option \<Rightarrow> exn + notification" where
  "create_notification now nt ti bo da dts tp pr ck tt sch =
     (if dts = None \<and> tp = None then Inl (ValueError ''Must specify either device tokens or topic'')
      else if dts \<noteq> None \<and> tp \<noteq> None
      then Inl (ValueError ''Cannot specify both device tokens and topic'')
      else
        let notification =
              (case dts of
                 Some d \<Rightarrow> create_device_notification nt d ti bo da pr ck tt sch
               | None \<Rightarrow> create_topic_notification nt (the tp) ti bo da pr ck tt sch)
        in case validate now notification of
             Inl e \<Rightarrow> Inl e
           | Inr validation_errors \<Rightarrow>
               if validation_errors \<noteq> []
               then Inl (ValueError (''Invalid notification: ''
                           @ py_join ''; '' validation_errors))
               else Inr notification)"

section \<open>The collaborators\<close>

subsection \<open>The push gateway (infrastructure/fcm/fcm_client.py)\<close>

text \<open>
  The gateway client catches every exception of a call and returns a dictionary. A reply
  to a single-device call has the entries \<open>success\<close>, \<open>message_id\<close> and \<open>error\<close>; a reply to a
  multicast call has \<open>success\<close>, \<open>success_count\<close>, \<open>failure_count\<close> and \<open>error\<close>, and no
  \<open>message_id\<close>. What the gateway answers is not the repository's to decide: the client is a
  pair of functions from the call's arguments to the reply.
\<close>

record device_reply =
  dr_success :: bool
  dr_message_id :: "string option"
  dr_error :: "string option"

record multicast_reply =
  mr_success :: bool
  success_count :: int
  failure_count :: int
  mr_error :: "string option"

record fcm_client =
  send_to_device :: "string \<Rightarrow> notification \<Rightarrow> device_reply"
  send_to_multiple_devices :: "string list \<Rightarrow> notification \<Rightarrow> multicast_reply"

subsection \<open>The store (infrastructure/valkey/valkey_client.py)\<close>

record notification_status =
  ns_type :: string
  ns_target_count :: int
  ns_sent_count :: int
  ns_failed_count :: int
  ns_status :: string
  ns_error_message :: "string option"
  ns_message_id :: "string option"

record batch_event =
  be_total_notifications :: int
  be_successful_count :: int
  be_failed_count :: int

datatype payload = Status notification_status | Batch batch_event

text \<open>
  The connection behind the client: whether \<open>is_connected()\<close> holds, what \<open>connect()\<close>
  raises if anything, and what the server's \<open>set\<close> and \<open>publish\<close> raise or return. The key of
  a status record is built from the notification's UUID, which the model leaves out.
\<close>

record redis =
  is_connected :: bool
  connect :: "exn option"
  redis_set :: "notification_status \<Rightarrow> exn + bool"
  redis_publish :: "string \<Rightarrow> payload \<Rightarrow> exn + int"

text \<open>
  \<open>ValkeyClient.set\<close> and \<open>ValkeyClient.publish\<close>: connect when not connected, then call the
  server inside \<open>try\<close>; both \<open>except\<close> clauses log the error and raise it again.
\<close>

definition ValkeyClient_set :: "redis \<Rightarrow> notification_status \<Rightarrow> exn + bool" where
  "ValkeyClient_set r v =
     (case (if is_connected r then None else connect r) of
        Some e \<Rightarrow> Inl e
      | None \<Rightarrow> (case redis_set r v of Inl e \<Rightarrow> Inl e | Inr res \<Rightarrow> Inr res))"

definition ValkeyClient_publish :: "redis \<Rightarrow> string \<Rightarrow> payload \<Rightarrow> exn + int" where
  "ValkeyClient_publish r channel msg =
     (case (if is_connected r then None else connect r) of
        Some e \<Rightarrow> Inl e
      | None \<Rightarrow>
          (case redis_publish r channel msg of
             Inl e \<Rightarrow> Inl e
           | Inr subscribers \<Rightarrow> Inr subscribers))"

section \<open>Requests and responses (application/dto)\<close>

record device_token_request =
  req_token :: string
  req_platform :: string

record send_notification_request =
  req_device_tokens :: "device_token_request list"
  req_notification_type :: string
  req_title :: "string option"
  req_body :: "string option"
  req_data :: "(string \<times> string) list"
  req_priority :: string
  req_collapse_key :: "string option"
  req_ttl :: "int option"
  req_scheduled_at :: "datetime option"

record batch_notification_request =
  notifications :: "send_notification_request list"

text \<open>
  A response's \<open>message\<close> is a string. Where the handler formats an exception into it,
  \<open>f"Failed to process notification: {str(e)}"\<close>, the model keeps the exception: the text of
  a pydantic error is the library's rendering. An \<open>HTTPException\<close> likewise keeps the
  exception whose text is its \<open>detail\<close>. The \<open>notification_id\<close>, \<open>batch_id\<close> and
  \<open>processing_time_ms\<close> of a response, fresh UUIDs and a clock difference, are left out.
\<close>

datatype message = Message string | Failed_to_process exn

datatype http_error = HTTPException nat exn

record notification_result =
  r_status :: string
  r_sent_count :: int
  r_failed_count :: int
  r_error_message :: "string option"
  r_target_count :: int

record send_notification_response =
  success :: bool
  results :: "notification_result list"
  total_sent :: int
  total_failed :: int
  total_targets :: int
  message :: message

record batch_notification_response =
  b_success :: bool
  total_notifications :: int
  successful_notifications :: int
  failed_notifications :: int
  b_results :: "send_notification_response list"
  b_message :: message

section \<open>The dispatch orchestrator (presentation/api/v1/notifications.py)\<close>

text \<open>
  The list comprehension \<open>[DeviceToken(value=token.token, platform=token.platform) for token
  in request.device_tokens]\<close>: the first token that does not validate raises.
\<close>

fun make_device_tokens :: "device_token_request list \<Rightarrow> exn + device_token list" where
  "make_device_tokens [] = Inr []"
| "make_device_tokens (t # ts) =
     (case DeviceToken_init (req_token t) (req_platform t) of
        Inl e \<Rightarrow> Inl e
      | Inr d \<Rightarrow> (case make_device_tokens ts of Inl e \<Rightarrow> Inl e | Inr ds \<Rightarrow> Inr (d # ds)))"

text \<open>
  Lines 49 to 82 of \<open>send_notification\<close>, and the same lines 307 to 333 of
  \<open>send_batch_notifications\<close>: the request becomes a token list, a notification type and a
  validated notification. \<open>mx\<close> is \<open>settings.max_tokens_per_request\<close>.
\<close>

definition convert_request ::
  "instant \<Rightarrow> int \<Rightarrow> send_notification_request \<Rightarrow> exn + (device_token_list \<times> notification)"
  where
  "convert_request now mx request =
     (case make_device_tokens (req_device_tokens request) of
        Inl e \<Rightarrow> Inl e
      | Inr toks \<Rightarrow>
     (case DeviceTokenList_init toks mx of
        Inl e \<Rightarrow> Inl e
      | Inr dts \<Rightarrow>
     (case NotificationType_init (req_notification_type request) (req_priority request) of
        Inl e \<Rightarrow> Inl e
      | Inr nt \<Rightarrow>
     (case create_notification now nt (req_title request) (req_body request) (req_data request)
             (Some dts) None (req_priority request) (req_collapse_key request)
             (req_ttl request) (req_scheduled_at request) of
        Inl e \<Rightarrow> Inl e
      | Inr notification \<Rightarrow> Inr (dts, notification)))))"

text \<open>
  Lines 85 to 152 of \<open>send_notification\<close>: one gateway call, the entity marked, and the
  per-dispatch result. The value holds the entity after the calls of \<open>mark_sent\<close> and
  \<open>mark_failed\<close>, the \<open>NotificationResult\<close>, and \<open>result.get("message_id")\<close>.
\<close>

record dispatched =
  d_notification :: notification
  d_result :: notification_result
  d_message_id :: "string option"

definition dispatch :: "fcm_client \<Rightarrow> notification \<Rightarrow> string list \<Rightarrow> dispatched" where
  "dispatch fcm notification device_token_values =
     (if length device_token_values = 1 then
        (let result = send_to_device fcm (device_token_values ! 0) notification in
         if dr_success result then
           \<lparr>d_notification = mark_sent 1 notification,
            d_result = \<lparr>r_status = ''success'', r_sent_count = 1, r_failed_count = 0,
                        r_error_message = dr_error result, r_target_count = 1\<rparr>,
            d_message_id = dr_message_id result\<rparr>
         else
           \<lparr>d_notification = mark_failed (dr_error result) 1 notification,
            d_result = \<lparr>r_status = ''failed'', r_sent_count = 0, r_failed_count = 1,
                        r_error_message = dr_error result, r_target_count = 1\<rparr>,
            d_message_id = dr_message_id result\<rparr>)
      else
        (let result = send_to_multiple_devices fcm device_token_values notification in
         if mr_success result then
           \<lparr>d_notification =
              (let n1 = mark_sent (success_count result) notification
               in if failure_count result > 0
                  then mark_failed (Some ''Some devices failed'') (failure_count result) n1
                  else n1),
            d_result = \<lparr>r_status = (if failure_count result > 0 then ''partial'' else ''success''),
                        r_sent_count = success_count result,
                        r_failed_count = failure_count result,
                        r_error_message = mr_error result,
                        r_target_count = int (length device_token_values)\<rparr>,
            d_message_id = None\<rparr>
         else
           \<lparr>d_notification = mark_failed (mr_error result) 1 notification,
            d_result = \<lparr>r_status = ''failed'', r_sent_count = 0,
                        r_failed_count = int (length device_token_values),
                        r_error_message = mr_error result,
                        r_target_count = int (length device_token_values)\<rparr>,
            d_message_id = None\<rparr>))"

text \<open>Lines 155 to 165: the status record written to the store and published.\<close>

definition status_record :: "dispatched \<Rightarrow> notification_status" where
  "status_record d =
     \<lparr>ns_type = type_value (notification_type (d_notification d)),
      ns_target_count = get_target_count (d_notification d),
      ns_sent_count = r_sent_count (d_result d),
      ns_failed_count = r_failed_count (d_result d),
      ns_status = r_status (d_result d),
      ns_error_message = r_error_message (d_result d),
      ns_message_id = d_message_id d\<rparr>"

text \<open>
  \<open>send_notification\<close>: the whole handler. Every exception inside its \<open>try\<close> becomes an
  \<open>HTTPException\<close> with status 500.
\<close>

definition send_notification ::
  "instant \<Rightarrow> int \<Rightarrow> fcm_client \<Rightarrow> redis \<Rightarrow> send_notification_request \<Rightarrow>
   http_error + send_notification_response" where
  "send_notification now mx fcm r request =
     (case convert_request now mx request of
        Inl e \<Rightarrow> Inl (HTTPException 500 e)
      | Inr (dts, notification) \<Rightarrow>
          let d = dispatch fcm notification (map token_value (tokens dts)) in
            (case ValkeyClient_set r (status_record d) of
               Inl e \<Rightarrow> Inl (HTTPException 500 e)
             | Inr _ \<Rightarrow>
            (case ValkeyClient_publish r ''notification.sent'' (Status (status_record d)) of
               Inl e \<Rightarrow> Inl (HTTPException 500 e)
             | Inr _ \<Rightarrow>
                 Inr \<lparr>success = (r_status (d_result d) \<noteq> ''failed''),
                      results = [d_result d],
                      total_sent = r_sent_count (d_result d),
                      total_failed = r_failed_count (d_result d),
                      total_targets = get_target_count (d_notification d),
                      message = Message (''Notification sent successfully to ''
                                  @ str_int (r_sent_count (d_result d)) @ '' devices'')\<rparr>)))"

section \<open>The batch processor (\<open>send_batch_notifications\<close>)\<close>

text \<open>
  The loop's variables: the list \<open>results\<close> and the counters \<open>successful_count\<close> and
  \<open>failed_count\<close>. The handler has one variable named \<open>failed_count\<close>: the loop body
  assigns the item's own failure count to it and, on a failed item, increments it.
\<close>

record batch_state =
  bs_results :: "send_notification_response list"
  bs_successful_count :: int
  bs_failed_count :: int

text \<open>
  Lines 338 to 379: the gateway call of one item and the assignments that follow it. The
  value holds \<open>sent_count\<close>, \<open>failed_count\<close>, \<open>status\<close> and \<open>successful_count\<close> after these
  lines, and the reply's \<open>error\<close> and \<open>message_id\<close> entries.
\<close>

record item_vars =
  iv_sent_count :: int
  iv_failed_count :: int
  iv_status :: string
  iv_successful_count :: int
  iv_error :: "string option"
  iv_message_id :: "string option"

definition batch_send :: "fcm_client \<Rightarrow> notification \<Rightarrow> string list \<Rightarrow> int \<Rightarrow> item_vars" where
  "batch_send fcm notification device_token_values successful_count =
     (if length device_token_values = 1 then
        (let result = send_to_device fcm (device_token_values ! 0) notification in
         if dr_success result then
           \<lparr>iv_sent_count = 1, iv_failed_count = 0, iv_status = ''success'',
            iv_successful_count = successful_count + 1,
            iv_error = dr_error result, iv_message_id = dr_message_id result\<rparr>
         else
           \<lparr>iv_sent_count = 0, iv_failed_count = 1 + 1, iv_status = ''failed'',
            iv_successful_count = successful_count,
            iv_error = dr_error result, iv_message_id = dr_message_id result\<rparr>)
      else
        (let result = send_to_multiple_devices fcm device_token_values notification in
         if mr_success result then
           \<lparr>iv_sent_count = success_count result, iv_failed_count = failure_count result,
            iv_status = (if failure_count result > 0 then ''partial'' else ''success''),
            iv_successful_count = successful_count + 1,
            iv_error = mr_error result, iv_message_id = None\<rparr>
         else
           \<lparr>iv_sent_count = 0, iv_failed_count = int (length device_token_values) + 1,
            iv_status = ''failed'', iv_successful_count = successful_count,
            iv_error = mr_error result, iv_message_id = None\<rparr>))"

text \<open>The \<open>except\<close> clause of the loop body, lines 417 to 431.\<close>

definition batch_except :: "exn \<Rightarrow> batch_state \<Rightarrow> batch_state" where
  "batch_except e st =
     st\<lparr>bs_failed_count := bs_failed_count st + 1,
        bs_results := bs_results st
          @ [\<lparr>success = False, results = [], total_sent = 0, total_failed = 1,
              total_targets = 0, message = Failed_to_process e\<rparr>]\<rparr>"

text \<open>
  One pass of the loop body, lines 306 to 431. An exception raised while the request is
  converted reaches the \<open>except\<close> clause with the counters as they were; one raised by the
  store write reaches it after the assignments of \<open>batch_send\<close>.
\<close>

definition batch_item ::
  "instant \<Rightarrow> int \<Rightarrow> fcm_client \<Rightarrow> redis \<Rightarrow> send_notification_request \<Rightarrow>
   batch_state \<Rightarrow> batch_state" where
  "batch_item now mx fcm r notification_request st =
     (case convert_request now mx notification_request of
        Inl e \<Rightarrow> batch_except e st
      | Inr (dts, notification) \<Rightarrow>
          let device_token_values = map token_value (tokens dts);
              v = batch_send fcm notification device_token_values (bs_successful_count st);
              st1 = st\<lparr>bs_successful_count := iv_successful_count v,
                       bs_failed_count := iv_failed_count v\<rparr>;
              item_status =
                \<lparr>ns_type = type_value (notification_type notification),
                 ns_target_count = int (length device_token_values),
                 ns_sent_count = iv_sent_count v,
                 ns_failed_count = iv_failed_count v,
                 ns_status = iv_status v,
                 ns_error_message = iv_error v,
                 ns_message_id = iv_message_id v\<rparr>
          in
            (case ValkeyClient_set r item_status of
               Inl e \<Rightarrow> batch_except e st1
             | Inr _ \<Rightarrow>
                 st1\<lparr>bs_results := bs_results st1
                   @ [\<lparr>success = (iv_status v \<noteq> ''failed''),
                       results = [\<lparr>r_status = iv_status v, r_sent_count = iv_sent_count v,
                                   r_failed_count = iv_failed_count v,
                                   r_error_message = iv_error v,
                                   r_target_count = int (length device_token_values)\<rparr>],
                       total_sent = iv_sent_count v,
                       total_failed = iv_failed_count v,
                       total_targets = int (length device_token_values),
                       message = Message (''Batch notification '' @ iv_status v)\<rparr>]\<rparr>))"

text \<open>
  The loop over \<open>request.notifications\<close>. The collaborators answer each item on its own:
  \<open>fcm i\<close> and \<open>r i\<close> are the gateway and the store as they answer during item \<open>i\<close>.
\<close>

fun batch_loop ::
  "instant \<Rightarrow> int \<Rightarrow> (nat \<Rightarrow> fcm_client) \<Rightarrow> (nat \<Rightarrow> redis) \<Rightarrow> nat \<Rightarrow>
   send_notification_request list \<Rightarrow> batch_state \<Rightarrow> batch_state" where
  "batch_loop now mx fcm r i [] st = st"
| "batch_loop now mx fcm r i (q # qs) st =
     batch_loop now mx fcm r (Suc i) qs (batch_item now mx (fcm i) (r i) q st)"

definition batch_init :: batch_state where
  "batch_init = \<lparr>bs_results = [], bs_successful_count = 0, bs_failed_count = 0\<rparr>"

text \<open>
  \<open>send_batch_notifications\<close>: the loop, the batch event published to the store (answered
  by \<open>r\<close> at the index after the last item), and the response. An exception of the publish
  becomes an \<open>HTTPException\<close> with status 500.
\<close>

definition send_batch_notifications ::
  "instant \<Rightarrow> int \<Rightarrow> (nat \<Rightarrow> fcm_client) \<Rightarrow> (nat \<Rightarrow> redis) \<Rightarrow> batch_notification_request \<Rightarrow>
   http_error + batch_notification_response" where
  "send_batch_notifications now mx fcm r request =
     (let st = batch_loop now mx fcm r 0 (notifications request) batch_init;
          n = length (notifications request)
      in case ValkeyClient_publish (r n) ''notification.batch.sent''
                (Batch \<lparr>be_total_notifications = int n,
                        be_successful_count = bs_successful_count st,
                        be_failed_count = bs_failed_count st\<rparr>) of
           Inl e \<Rightarrow> Inl (HTTPException 500 e)
         | Inr _ \<Rightarrow>
             Inr \<lparr>b_success = (bs_failed_count st = 0),
                  total_notifications = int n,
                  successful_notifications = bs_successful_count st,
                  failed_notifications = bs_failed_count st,
                  b_results = bs_results st,
                  b_message = Message (''Batch processing completed: ''
                    @ str_int (bs_successful_count st) @ '' successful, ''
                    @ str_int (bs_failed_count st) @ '' failed'')\<rparr>)"

text \<open>
  The response the loop body appends for one request: the last entry of the list after
  one pass from the initial state.
\<close>

definition item_response ::
  "instant \<Rightarrow> int \<Rightarrow> fcm_client \<Rightarrow> redis \<Rightarrow> send_notification_request \<Rightarrow>
   send_notification_response" where
  "item_response now mx fcm r q = last (bs_results (batch_item now mx fcm r q batch_init))"

section \<open>Concrete inputs\<close>

text \<open>Inputs on which the theorems below are evaluated.\<close>

definition alert_type :: notification_type where
  "alert_type = \<lparr>type_value = ''alert'', template_id = None, type_priority = ''high'',
     type_ttl = None\<rparr>"

definition blank_alert :: notification where
  "blank_alert =
     \<lparr>notification_type = alert_type, title = None, body = None, data = [],
      device_tokens = None, topic = None, scheduled_at = None, expires_at = None,
      priority = ''normal'', collapse_key = None, ttl = None, status = ''pending'',
      sent_count = 0, failed_count = 0, error_message = None\<rparr>"

definition token_a :: string where
  "token_a = ''aaaaaaaaaaaaaaaaaaaaaaaaaaaaaaaa''"

definition token_b :: string where
  "token_b = ''bbbbbbbbbbbbbbbbbbbbbbbbbbbbbbbb''"

definition alert_request :: "string list \<Rightarrow> send_notification_request" where
  "alert_request toks =
     \<lparr>req_device_tokens = map (\<lambda>t. \<lparr>req_token = t, req_platform = ''android''\<rparr>) toks,
      req_notification_type = ''alert'', req_title = Some ''Hello'', req_body = Some ''World'',
      req_data = [], req_priority = ''normal'', req_collapse_key = None, req_ttl = None,
      req_scheduled_at = None\<rparr>"

text \<open>The token list and the notification that \<open>alert_request [token_a, token_b]\<close> converts to.\<close>

definition two_tokens :: device_token_list where
  "two_tokens =
     \<lparr>tokens = [\<lparr>token_value = token_a, platform = ''android''\<rparr>,
                \<lparr>token_value = token_b, platform = ''android''\<rparr>],
      max_tokens = 500\<rparr>"

definition two_token_alert :: notification where
  "two_token_alert =
     create_device_notification
       \<lparr>type_value = ''alert'', template_id = None, type_priority = ''normal'', type_ttl = None\<rparr>
       two_tokens (Some ''Hello'') (Some ''World'') [] ''normal'' None None None"

text \<open>
  A gateway that answers every call alike: \<open>ok\<close> is the reply's \<open>success\<close>, and \<open>s\<close> and \<open>f\<close>
  are a multicast reply's counts.
\<close>

definition fcm_replying :: "bool \<Rightarrow> int \<Rightarrow> int \<Rightarrow> fcm_client" where
  "fcm_replying ok s f =
     \<lparr>send_to_device = (\<lambda>_ _. \<lparr>dr_success = ok,
          dr_message_id = (if ok then Some ''m-1'' else None),
          dr_error = (if ok then None else Some ''unavailable'')\<rparr>),
      send_to_multiple_devices = (\<lambda>_ _. \<lparr>mr_success = ok, success_count = s,
          failure_count = f, mr_error = (if ok then None else Some ''unavailable'')\<rparr>)\<rparr>"

definition redis_up :: redis where
  "redis_up = \<lparr>is_connected = True, connect = None, redis_set = (\<lambda>_. Inr True),
     redis_publish = (\<lambda>_ _. Inr 0)\<rparr>"

definition redis_set_fails :: redis where
  "redis_set_fails = \<lparr>is_connected = True, connect = None,
     redis_set = (\<lambda>_. Inl (RedisError ''read only'')), redis_publish = (\<lambda>_ _. Inr 0)\<rparr>"

definition redis_publish_fails :: redis where
  "redis_publish_fails = \<lparr>is_connected = True, connect = None, redis_set = (\<lambda>_. Inr True),
     redis_publish = (\<lambda>_ _. Inl (RedisError ''connection lost''))\<rparr>"

text \<open>Six hundred tokens with pairwise different values, each at least 32 characters long.\<close>

definition six_hundred_tokens :: "device_token list" where
  "six_hundred_tokens =
     map (\<lambda>i. \<lparr>token_value = replicate (32 + i) (CHR ''t''), platform = ''android''\<rparr>) [0..<600]"


definition naive_alert :: notification where
  "naive_alert = two_token_alert\<lparr>scheduled_at := Some (Naive 1700000000000000)\<rparr>"

section \<open>Evaluations shared by the theorems\<close>

lemma str_int_500: "str_int 500 = ''500''"
  by code_simp

lemma convert_two_token_alert:
  "convert_request 0 500 (alert_request [token_a, token_b]) = Inr (two_tokens, two_token_alert)"
  by code_simp

text \<open>A converted request yields a fresh, device-targeted entity.\<close>

lemma convert_request_fresh:
  assumes "convert_request now mx request = Inr (dts, n)"
  shows "status n = ''pending'' \<and> sent_count n = 0 \<and> failed_count n = 0
    \<and> device_tokens n = Some dts \<and> topic n = None"
proof -
  from assms obtain nt where
    "create_notification now nt (req_title request) (req_body request) (req_data request)
       (Some dts) None (req_priority request) (req_collapse_key request)
       (req_ttl request) (req_scheduled_at request) = Inr n"
    by (auto simp: convert_request_def split: sum.splits)
  then have "n = create_device_notification nt dts (req_title request) (req_body request)
       (req_data request) (req_priority request) (req_collapse_key request)
       (req_ttl request) (req_scheduled_at request)"
    by (simp add: create_notification_def Let_def split: if_splits sum.splits)
  then show ?thesis by (simp add: create_device_notification_def)
qed

section \<open>Multicast aggregation\<close>

text \<open>
  Claim C1. A dispatch to more than one token makes one multicast call. When the reply's
  \<open>success\<close> is true, the dispatch result has the reply's \<open>success_count\<close> as \<open>sent_count\<close>
  and its \<open>failure_count\<close> as \<open>failed_count\<close>, status \<open>partial\<close> when the failure count is
  positive and \<open>success\<close> otherwise; when the reply's \<open>success\<close> is false, the result has
  status \<open>failed\<close>, \<open>sent_count\<close> 0 and \<open>failed_count\<close> the number of tokens. In both cases
  \<open>target_count\<close> is the number of tokens requested.
\<close>

theorem multicast_dispatch_result:
  assumes "1 < length toks"
  shows "(mr_success (send_to_multiple_devices fcm toks n) \<longrightarrow>
            r_status (d_result (dispatch fcm n toks))
              = (if 0 < failure_count (send_to_multiple_devices fcm toks n)
                 then ''partial'' else ''success'')
          \<and> r_sent_count (d_result (dispatch fcm n toks))
              = success_count (send_to_multiple_devices fcm toks n)
          \<and> r_failed_count (d_result (dispatch fcm n toks))
              = failure_count (send_to_multiple_devices fcm toks n)
          \<and> r_target_count (d_result (dispatch fcm n toks)) = int (length toks))
       \<and> (\<not> mr_success (send_to_multiple_devices fcm toks n) \<longrightarrow>
            r_status (d_result (dispatch fcm n toks)) = ''failed''
          \<and> r_sent_count (d_result (dispatch fcm n toks)) = 0
          \<and> r_failed_count (d_result (dispatch fcm n toks)) = int (length toks)
          \<and> r_target_count (d_result (dispatch fcm n toks)) = int (length toks))"
  using assms by (simp add: dispatch_def Let_def)

theorem multicast_dispatch_result_witness:
  "1 < length [''t1'', ''t2'', ''t3'', ''t4'', ''t5'']
   \<and> mr_success (send_to_multiple_devices (fcm_replying True 3 2)
        [''t1'', ''t2'', ''t3'', ''t4'', ''t5''] blank_alert)
   \<and> r_status (d_result (dispatch (fcm_replying True 3 2)
        blank_alert [''t1'', ''t2'', ''t3'', ''t4'', ''t5''])) = ''partial''
   \<and> r_sent_count (d_result (dispatch (fcm_replying True 3 2)
        blank_alert [''t1'', ''t2'', ''t3'', ''t4'', ''t5''])) = 3
   \<and> r_failed_count (d_result (dispatch (fcm_replying True 3 2)
        blank_alert [''t1'', ''t2'', ''t3'', ''t4'', ''t5''])) = 2
   \<and> r_target_count (d_result (dispatch (fcm_replying True 3 2)
        blank_alert [''t1'', ''t2'', ''t3'', ''t4'', ''t5''])) = 5"
proof -
  have len: "1 < length [''t1'', ''t2'', ''t3'', ''t4'', ''t5'']" by simp
  show ?thesis
    using len multicast_dispatch_result [OF len, of "fcm_replying True 3 2" blank_alert]
    by (simp add: fcm_replying_def)
qed

section \<open>Validation of the entity\<close>














lemma validate_naive_alert:
  "validate 0 naive_alert = Inl (TypeError ''can't compare offset-naive and offset-aware datetimes'')"
  by code_simp







section \<open>The entity's counters\<close>

lemma mark_sent_fields:
  "sent_count (mark_sent k n) = sent_count n + k"
  "failed_count (mark_sent k n) = failed_count n"
  "error_message (mark_sent k n) = error_message n"
  "status (mark_sent k n) = (if status n = ''pending'' then ''sent'' else status n)"
  by (simp_all add: mark_sent_def Let_def)

lemma mark_failed_fields:
  "failed_count (mark_failed msg k n) = failed_count n + k"
  "sent_count (mark_failed msg k n) = sent_count n"
  "error_message (mark_failed msg k n) = msg"
  "status (mark_failed msg k n) = ''failed''"
  by (simp_all add: mark_failed_def)

lemma apply_calls_sent_count:
  "sent_count (apply_calls cs n) = sent_count n + sent_total cs"
proof (induction cs arbitrary: n)
  case Nil
  show ?case by (simp add: sent_total_def)
next
  case (Cons c cs)
  show ?case
    by (cases c) (simp_all add: Cons.IH sent_total_def mark_sent_fields mark_failed_fields)
qed

lemma apply_calls_failed_count:
  "failed_count (apply_calls cs n) = failed_count n + failed_total cs"
proof (induction cs arbitrary: n)
  case Nil
  show ?case by (simp add: failed_total_def)
next
  case (Cons c cs)
  show ?case
    by (cases c) (simp_all add: Cons.IH failed_total_def mark_sent_fields mark_failed_fields)
qed

lemma sent_total_nonneg: "list_all (\<lambda>c. 0 \<le> call_count c) cs \<Longrightarrow> 0 \<le> sent_total cs"
  by (induction cs) (auto simp: sent_total_def split: call.splits)

lemma failed_total_nonneg: "list_all (\<lambda>c. 0 \<le> call_count c) cs \<Longrightarrow> 0 \<le> failed_total cs"
  by (induction cs) (auto simp: failed_total_def split: call.splits)

lemma apply_calls_failed_sticky:
  "status n = ''failed'' \<Longrightarrow> status (apply_calls cs n) = ''failed''"
proof (induction cs arbitrary: n)
  case Nil
  then show ?case by simp
next
  case (Cons c cs)
  show ?case
  proof (cases c)
    case (MarkSent k)
    with Cons.prems have "status (apply_call c n) = ''failed''"
      by (simp add: mark_sent_fields)
    then show ?thesis using Cons.IH by simp
  next
    case (MarkFailed msg k)
    then have "status (apply_call c n) = ''failed''"
      by (simp add: mark_failed_fields)
    then show ?thesis using Cons.IH by simp
  qed
qed

text \<open>
  Claim C10. \<open>mark_sent k\<close> adds \<open>k\<close> to \<open>sent_count\<close>, so a count \<open>k \<ge> 0\<close> never lowers it,
  and it changes the status to \<open>sent\<close> only from \<open>pending\<close>: a \<open>failed\<close> status stays.
  \<open>mark_failed msg k\<close> adds \<open>k\<close> to \<open>failed_count\<close>, sets \<open>error_message\<close> to \<open>msg\<close> and
  makes the status \<open>failed\<close> whatever it was. Over any sequence of calls, \<open>sent_count\<close>
  grows by the sum of the \<open>mark_sent\<close> counts and \<open>failed_count\<close> by the sum of the
  \<open>mark_failed\<close> counts, neither decreases when the counts are non-negative, and a
  \<open>failed\<close> status is never left.
\<close>

theorem mark_sent_mark_failed:
  "sent_count (mark_sent k n) = sent_count n + k
   \<and> (0 \<le> k \<longrightarrow> sent_count n \<le> sent_count (mark_sent k n))
   \<and> failed_count (mark_sent k n) = failed_count n
   \<and> status (mark_sent k n) = (if status n = ''pending'' then ''sent'' else status n)
   \<and> (status n = ''failed'' \<longrightarrow> status (mark_sent k n) = ''failed'')
   \<and> failed_count (mark_failed msg k n) = failed_count n + k
   \<and> (0 \<le> k \<longrightarrow> failed_count n \<le> failed_count (mark_failed msg k n))
   \<and> sent_count (mark_failed msg k n) = sent_count n
   \<and> error_message (mark_failed msg k n) = msg
   \<and> status (mark_failed msg k n) = ''failed''
   \<and> sent_count (apply_calls cs n) = sent_count n + sent_total cs
   \<and> failed_count (apply_calls cs n) = failed_count n + failed_total cs
   \<and> (list_all (\<lambda>c. 0 \<le> call_count c) cs \<longrightarrow>
        sent_count n \<le> sent_count (apply_calls cs n)
        \<and> failed_count n \<le> failed_count (apply_calls cs n))
   \<and> (status n = ''failed'' \<longrightarrow> status (apply_calls cs n) = ''failed'')"
  using sent_total_nonneg [of cs] failed_total_nonneg [of cs] apply_calls_failed_sticky [of n cs]
  by (simp add: mark_sent_fields mark_failed_fields apply_calls_sent_count
      apply_calls_failed_count)

theorem mark_sent_mark_failed_witness:
  "(0::int) \<le> 3
   \<and> sent_count blank_alert \<le> sent_count (mark_sent 3 blank_alert)
   \<and> sent_count (mark_sent 3 blank_alert) = 3
   \<and> status (mark_sent 3 blank_alert) = ''sent''
   \<and> status (mark_failed (Some ''boom'') 3 blank_alert) = ''failed''
   \<and> status (mark_sent 3 (mark_failed (Some ''boom'') 3 blank_alert)) = ''failed''
   \<and> list_all (\<lambda>c. 0 \<le> call_count c) [MarkSent 2, MarkFailed (Some ''x'') 1, MarkSent 4]
   \<and> sent_count (apply_calls [MarkSent 2, MarkFailed (Some ''x'') 1, MarkSent 4] blank_alert) = 6
   \<and> failed_count (apply_calls [MarkSent 2, MarkFailed (Some ''x'') 1, MarkSent 4] blank_alert) = 1
   \<and> status (apply_calls [MarkSent 2, MarkFailed (Some ''x'') 1, MarkSent 4] blank_alert) = ''failed''"
  using mark_sent_mark_failed [where k = 3 and n = blank_alert and msg = "Some ''boom''"
      and cs = "[MarkSent 2, MarkFailed (Some ''x'') 1, MarkSent 4]"]
    mark_sent_mark_failed [where k = 3 and n = "mark_failed (Some ''boom'') 3 blank_alert"
      and msg = None and cs = "[]"]
  by (simp add: blank_alert_def sent_total_def failed_total_def mark_failed_def mark_sent_def)

section \<open>Token collections\<close>

lemma card_set_eq_length: "length xs = card (set xs) \<longleftrightarrow> distinct xs"
  using card_distinct [of xs] distinct_card [of xs] by auto

text \<open>
  What the constructor of \<open>DeviceTokenList\<close> accepts: a non-empty list of at most 500
  tokens with pairwise different values, whatever \<open>max_tokens\<close> the caller passes.
\<close>

lemma DeviceTokenList_init_accepts:
  "(\<exists>d. DeviceTokenList_init ts m = Inr d)
     \<longleftrightarrow> ts \<noteq> [] \<and> length ts \<le> 500 \<and> distinct (map token_value ts)"
  by (auto simp: DeviceTokenList_init_def validate_tokens_def Let_def card_set_eq_length
      split: sum.splits if_splits)

lemma six_hundred_tokens_distinct:
  "distinct (map token_value six_hundred_tokens) \<and> length six_hundred_tokens = 600"
  by (simp add: six_hundred_tokens_def distinct_map inj_on_def comp_def)

text \<open>
  Claim C9, evaluated: six hundred tokens with pairwise different values and
  \<open>max_tokens = 1000\<close> are rejected with the message of the default limit of 500.
\<close>

theorem six_hundred_tokens_rejected:
  "distinct (map token_value six_hundred_tokens)
   \<and> length six_hundred_tokens = 600
   \<and> DeviceTokenList_init six_hundred_tokens 1000
       = Inl (ValidationError ''DeviceTokenList''
                [(''tokens'', ''Maximum 500 tokens allowed per request'')])"
proof -
  have len: "length six_hundred_tokens = 600"
    using six_hundred_tokens_distinct by (rule conjunct2)
  from len have ne: "six_hundred_tokens \<noteq> []" by auto
  from len ne have "DeviceTokenList_init six_hundred_tokens 1000
       = Inl (ValidationError ''DeviceTokenList''
                [(''tokens'', ''Maximum 500 tokens allowed per request'')])"
    by (simp add: DeviceTokenList_init_def validate_tokens_def str_int_500)
  with six_hundred_tokens_distinct show ?thesis by simp
qed

text \<open>
  Claim C8, as the code has it. A raw list of token strings on the topic-subscription
  path that is non-empty, has at most 1000 entries and holds a value twice is rejected
  with the duplicate-token error by both validators; a list they accept has no value
  twice, and the list returned holds the same values.
\<close>

theorem subscription_duplicates_rejected:
  "(v \<noteq> [] \<and> length v \<le> 1000 \<and> \<not> distinct v \<longrightarrow>
       TopicSubscriptionRequest_validate_device_tokens v
         = Inl ''Duplicate device tokens are not allowed''
     \<and> TopicSubscription_validate_device_tokens v
         = Inl ''Duplicate device tokens are not allowed'')
   \<and> (TopicSubscriptionRequest_validate_device_tokens v = Inr u \<longrightarrow>
       distinct v \<and> set u = set v \<and> length u = length v)
   \<and> (TopicSubscription_validate_device_tokens v = Inr u \<longrightarrow>
       distinct v \<and> set u = set v \<and> length u = length v)"
proof -
  have d: "length (remdups v) = length v \<longleftrightarrow> distinct v"
    using length_remdups_card_conv [of v] card_set_eq_length [of v] by auto
  show ?thesis
    unfolding TopicSubscriptionRequest_validate_device_tokens_def
      TopicSubscription_validate_device_tokens_def Let_def d
    by (auto split: if_splits)
qed

theorem subscription_duplicates_rejected_witness:
  "[''tok-1'', ''tok-2'', ''tok-1''] \<noteq> []
   \<and> length [''tok-1'', ''tok-2'', ''tok-1''] \<le> 1000
   \<and> \<not> distinct [''tok-1'', ''tok-2'', ''tok-1'']
   \<and> TopicSubscriptionRequest_validate_device_tokens [''tok-1'', ''tok-2'', ''tok-1'']
       = Inl ''Duplicate device tokens are not allowed''
   \<and> TopicSubscription_validate_device_tokens [''tok-1'', ''tok-2'', ''tok-1'']
       = Inl ''Duplicate device tokens are not allowed''"
proof -
  have h: "[''tok-1'', ''tok-2'', ''tok-1''] \<noteq> []
     \<and> length [''tok-1'', ''tok-2'', ''tok-1''] \<le> 1000
     \<and> \<not> distinct [''tok-1'', ''tok-2'', ''tok-1'']"
    by simp
  show ?thesis
    using h subscription_duplicates_rejected [of "[''tok-1'', ''tok-2'', ''tok-1'']" "[]"]
    by simp
qed

text \<open>
  Claim C8 as stated fails: a list holding one token twice is not deduplicated, it is
  rejected.
\<close>

theorem subscription_duplicates_counterexample:
  "TopicSubscriptionRequest_validate_device_tokens [token_a, token_a]
     = Inl ''Duplicate device tokens are not allowed''
   \<and> TopicSubscription_validate_device_tokens [token_a, token_a]
     = Inl ''Duplicate device tokens are not allowed''"
  by (simp add: TopicSubscriptionRequest_validate_device_tokens_def
      TopicSubscription_validate_device_tokens_def)

section \<open>The entity after a dispatch\<close>

lemma two_tokens_values: "map token_value (tokens two_tokens) = [token_a, token_b]"
  by (simp add: two_tokens_def)

lemma two_token_reply:
  "mr_success (send_to_multiple_devices (fcm_replying True 1 1)
        [token_a, token_b] two_token_alert)
   \<and> 0 \<le> failure_count (send_to_multiple_devices (fcm_replying True 1 1)
        [token_a, token_b] two_token_alert)"
  by (simp add: fcm_replying_def)

lemma two_token_result:
  "r_sent_count (d_result (dispatch (fcm_replying True 1 1) two_token_alert
        [token_a, token_b])) = 1
   \<and> r_failed_count (d_result (dispatch (fcm_replying True 1 1) two_token_alert
        [token_a, token_b])) = 1
   \<and> r_status (d_result (dispatch (fcm_replying True 1 1) two_token_alert
        [token_a, token_b])) = ''partial''"
  by (simp add: dispatch_def fcm_replying_def Let_def)

lemma dispatch_two_token_alert_partial:
  "status (d_notification (dispatch (fcm_replying True 1 1) two_token_alert [token_a, token_b]))
     = ''failed''
   \<and> r_status (d_result (dispatch (fcm_replying True 1 1) two_token_alert [token_a, token_b]))
     = ''partial''"
  by (simp add: dispatch_def fcm_replying_def Let_def mark_failed_fields)

text \<open>
  Claim C3 as stated fails: the request \<open>alert_request [token_a, token_b]\<close> converts to
  \<open>two_token_alert\<close>; when the gateway reports one token sent and one failed, the reported
  status is \<open>partial\<close> and the entity's status is \<open>failed\<close>.
\<close>

theorem entity_status_counterexample:
  "convert_request 0 500 (alert_request [token_a, token_b]) = Inr (two_tokens, two_token_alert)
   \<and> map token_value (tokens two_tokens) = [token_a, token_b]
   \<and> status (d_notification (dispatch (fcm_replying True 1 1) two_token_alert [token_a, token_b]))
       = ''failed''
   \<and> r_status (d_result (dispatch (fcm_replying True 1 1) two_token_alert [token_a, token_b]))
       = ''partial''
   \<and> r_status (d_result (dispatch (fcm_replying True 1 1) two_token_alert [token_a, token_b]))
       \<noteq> ''failed''"
  using convert_two_token_alert dispatch_two_token_alert_partial
  by (simp add: two_tokens_def)

lemma dispatch_fresh:
  assumes "status n = ''pending''" and "sent_count n = 0" and "failed_count n = 0"
  shows "sent_count (d_notification (dispatch fcm n toks)) = r_sent_count (d_result (dispatch fcm n toks))"
    and "status (d_notification (dispatch fcm n toks)) = ''failed''
           \<longleftrightarrow> r_status (d_result (dispatch fcm n toks)) = ''failed''
             \<or> r_status (d_result (dispatch fcm n toks)) = ''partial''"
    and "status (d_notification (dispatch fcm n toks)) \<noteq> ''failed''
           \<longrightarrow> status (d_notification (dispatch fcm n toks)) = ''sent''
             \<and> r_status (d_result (dispatch fcm n toks)) = ''success''"
    and "length toks = 1 \<or> (mr_success (send_to_multiple_devices fcm toks n)
             \<and> 0 \<le> failure_count (send_to_multiple_devices fcm toks n))
           \<longrightarrow> failed_count (d_notification (dispatch fcm n toks))
                 = r_failed_count (d_result (dispatch fcm n toks))"
  using assms
  by (simp_all add: dispatch_def Let_def mark_sent_fields mark_failed_fields)

text \<open>
  Claim C3, as the code has it. After the dispatch of a converted request, the
  entity's \<open>sent_count\<close> is the result's \<open>sent_count\<close>; the entity's \<open>failed_count\<close> is the
  result's \<open>failed_count\<close> whenever the gateway returned per-target counts (a single-device
  call, or a multicast reply whose \<open>success\<close> is true and whose \<open>failure_count\<close> is not
  negative); and the entity's status is \<open>failed\<close>
  exactly when the reported status is \<open>failed\<close> or \<open>partial\<close>, otherwise the entity is
  \<open>sent\<close> and the reported status is \<open>success\<close>.
\<close>

theorem entity_agrees_with_result:
  assumes "convert_request now mx request = Inr (dts, n)"
  shows "sent_count (d_notification (dispatch fcm n (map token_value (tokens dts))))
           = r_sent_count (d_result (dispatch fcm n (map token_value (tokens dts))))
       \<and> (status (d_notification (dispatch fcm n (map token_value (tokens dts)))) = ''failed''
           \<longleftrightarrow> r_status (d_result (dispatch fcm n (map token_value (tokens dts)))) = ''failed''
             \<or> r_status (d_result (dispatch fcm n (map token_value (tokens dts)))) = ''partial'')
       \<and> (status (d_notification (dispatch fcm n (map token_value (tokens dts)))) \<noteq> ''failed''
           \<longrightarrow> status (d_notification (dispatch fcm n (map token_value (tokens dts)))) = ''sent''
             \<and> r_status (d_result (dispatch fcm n (map token_value (tokens dts)))) = ''success'')
       \<and> (length (tokens dts) = 1
             \<or> (mr_success (send_to_multiple_devices fcm (map token_value (tokens dts)) n)
               \<and> 0 \<le> failure_count
                     (send_to_multiple_devices fcm (map token_value (tokens dts)) n))
           \<longrightarrow> failed_count (d_notification (dispatch fcm n (map token_value (tokens dts))))
                 = r_failed_count (d_result (dispatch fcm n (map token_value (tokens dts)))))"
proof -
  from convert_request_fresh [OF assms]
  have f: "status n = ''pending''" "sent_count n = 0" "failed_count n = 0"
    by simp_all
  show ?thesis
    using dispatch_fresh [OF f, where fcm = fcm and toks = "map token_value (tokens dts)"]
    by simp
qed

theorem entity_agrees_with_result_witness:
  "convert_request 0 500 (alert_request [token_a, token_b]) = Inr (two_tokens, two_token_alert)
   \<and> mr_success (send_to_multiple_devices (fcm_replying True 1 1)
        [token_a, token_b] two_token_alert)
   \<and> 0 \<le> failure_count (send_to_multiple_devices (fcm_replying True 1 1)
        [token_a, token_b] two_token_alert)
   \<and> sent_count (d_notification (dispatch (fcm_replying True 1 1) two_token_alert
        [token_a, token_b])) = 1
   \<and> failed_count (d_notification (dispatch (fcm_replying True 1 1) two_token_alert
        [token_a, token_b])) = 1
   \<and> status (d_notification (dispatch (fcm_replying True 1 1) two_token_alert
        [token_a, token_b])) = ''failed''
   \<and> r_sent_count (d_result (dispatch (fcm_replying True 1 1) two_token_alert
        [token_a, token_b])) = 1
   \<and> r_failed_count (d_result (dispatch (fcm_replying True 1 1) two_token_alert
        [token_a, token_b])) = 1
   \<and> r_status (d_result (dispatch (fcm_replying True 1 1) two_token_alert
        [token_a, token_b])) = ''partial''"
proof -
  note t = entity_agrees_with_result
    [OF convert_two_token_alert, where fcm = "fcm_replying True 1 1",
     unfolded two_tokens_values]
  note r = two_token_result
  from t have c1: "sent_count (d_notification (dispatch (fcm_replying True 1 1) two_token_alert
        [token_a, token_b]))
      = r_sent_count (d_result (dispatch (fcm_replying True 1 1) two_token_alert
        [token_a, token_b]))"
    by (rule conjunct1)
  have c2: "status (d_notification (dispatch (fcm_replying True 1 1) two_token_alert
        [token_a, token_b])) = ''failed''"
    using t [THEN conjunct2, THEN conjunct1] r [THEN conjunct2, THEN conjunct2]
    by (simp only: simp_thms)
  have c4: "failed_count (d_notification (dispatch (fcm_replying True 1 1) two_token_alert
        [token_a, token_b]))
      = r_failed_count (d_result (dispatch (fcm_replying True 1 1) two_token_alert
        [token_a, token_b]))"
    using t [THEN conjunct2, THEN conjunct2, THEN conjunct2] two_token_reply
    by (simp only: simp_thms)
  show ?thesis
    using convert_two_token_alert two_token_reply r c1 c2 c4
    by (simp only: simp_thms)
qed

section \<open>A multicast reply without a success\<close>

text \<open>
  Claim C4 as stated fails: a multicast reply with \<open>success\<close> true, no token sent and two
  failed gives the status \<open>partial\<close>.
\<close>

theorem zero_success_counterexample:
  "r_status (d_result (dispatch (fcm_replying True 0 2) two_token_alert [token_a, token_b]))
     = ''partial''
   \<and> r_status (d_result (dispatch (fcm_replying True 0 2) two_token_alert [token_a, token_b]))
     \<noteq> ''failed''"
  by (simp add: dispatch_def fcm_replying_def Let_def)

text \<open>
  Claim C4, as the code has it. For a dispatch to more than one token the status is
  \<open>failed\<close> exactly when the reply's \<open>success\<close> is false; a reply whose \<open>success\<close> is true
  with \<open>success_count = 0\<close> and \<open>failure_count > 0\<close> gives \<open>partial\<close>, with \<open>sent_count = 0\<close>.
\<close>

theorem multicast_status_follows_success_flag:
  assumes "1 < length toks"
  shows "(r_status (d_result (dispatch fcm n toks)) = ''failed''
            \<longleftrightarrow> \<not> mr_success (send_to_multiple_devices fcm toks n))
       \<and> (mr_success (send_to_multiple_devices fcm toks n)
            \<and> success_count (send_to_multiple_devices fcm toks n) = 0
            \<and> 0 < failure_count (send_to_multiple_devices fcm toks n)
          \<longrightarrow> r_status (d_result (dispatch fcm n toks)) = ''partial''
            \<and> r_sent_count (d_result (dispatch fcm n toks)) = 0)"
  using assms by (simp add: dispatch_def Let_def)

theorem multicast_status_follows_success_flag_witness:
  "1 < length [''d1'', ''d2'', ''d3'']
   \<and> mr_success (send_to_multiple_devices (fcm_replying True 0 3) [''d1'', ''d2'', ''d3'']
        blank_alert)
   \<and> success_count (send_to_multiple_devices (fcm_replying True 0 3) [''d1'', ''d2'', ''d3'']
        blank_alert) = 0
   \<and> 0 < failure_count (send_to_multiple_devices (fcm_replying True 0 3)
        [''d1'', ''d2'', ''d3''] blank_alert)
   \<and> r_status (d_result (dispatch (fcm_replying True 0 3) blank_alert
        [''d1'', ''d2'', ''d3''])) = ''partial''
   \<and> r_sent_count (d_result (dispatch (fcm_replying True 0 3) blank_alert
        [''d1'', ''d2'', ''d3''])) = 0"
proof -
  have len: "1 < length [''d1'', ''d2'', ''d3'']" by simp
  show ?thesis
    using len
      multicast_status_follows_success_flag [OF len, of "fcm_replying True 0 3" blank_alert]
    by (simp add: fcm_replying_def)
qed

section \<open>Store failures\<close>

text \<open>
  Claim C5 as stated fails: the gateway reports both tokens sent, the store write raises,
  and the caller gets an HTTP error 500 carrying the store's error, not the dispatch
  result; likewise when the publish raises.
\<close>

theorem store_failure_counterexample:
  "send_notification 0 500 (fcm_replying True 2 0) redis_set_fails
       (alert_request [token_a, token_b])
     = Inl (HTTPException 500 (RedisError ''read only''))
   \<and> send_notification 0 500 (fcm_replying True 2 0) redis_publish_fails
       (alert_request [token_a, token_b])
     = Inl (HTTPException 500 (RedisError ''connection lost''))"
  by code_simp

text \<open>
  Claim C5, as the code has it. Once the request is converted and the gateway has
  answered, an exception of the status write, or of the publish after a successful
  write, is what the caller gets, as an HTTP error 500; the caller gets the
  gateway-determined result exactly when both store steps succeed.
\<close>

theorem store_failure_is_http_500:
  assumes "convert_request now mx request = Inr (dts, n)"
  shows "(ValkeyClient_set r (status_record (dispatch fcm n (map token_value (tokens dts))))
            = Inl e
          \<longrightarrow> send_notification now mx fcm r request = Inl (HTTPException 500 e))
       \<and> (ValkeyClient_set r (status_record (dispatch fcm n (map token_value (tokens dts))))
            = Inr a
          \<and> ValkeyClient_publish r ''notification.sent''
              (Status (status_record (dispatch fcm n (map token_value (tokens dts))))) = Inl e
          \<longrightarrow> send_notification now mx fcm r request = Inl (HTTPException 500 e))
       \<and> (ValkeyClient_set r (status_record (dispatch fcm n (map token_value (tokens dts))))
            = Inr a
          \<and> ValkeyClient_publish r ''notification.sent''
              (Status (status_record (dispatch fcm n (map token_value (tokens dts))))) = Inr k
          \<longrightarrow> (\<exists>resp. send_notification now mx fcm r request = Inr resp
                \<and> results resp = [d_result (dispatch fcm n (map token_value (tokens dts)))]
                \<and> success resp
                    = (r_status (d_result (dispatch fcm n (map token_value (tokens dts))))
                         \<noteq> ''failed'')))"
  using assms by (simp add: send_notification_def Let_def)

theorem store_failure_is_http_500_witness:
  "convert_request 0 500 (alert_request [token_a, token_b]) = Inr (two_tokens, two_token_alert)
   \<and> ValkeyClient_set redis_set_fails
        (status_record (dispatch (fcm_replying True 2 0) two_token_alert
           (map token_value (tokens two_tokens)))) = Inl (RedisError ''read only'')
   \<and> send_notification 0 500 (fcm_replying True 2 0) redis_set_fails
        (alert_request [token_a, token_b]) = Inl (HTTPException 500 (RedisError ''read only''))"
proof -
  have s: "ValkeyClient_set redis_set_fails
        (status_record (dispatch (fcm_replying True 2 0) two_token_alert
           (map token_value (tokens two_tokens)))) = Inl (RedisError ''read only'')"
    by (simp add: ValkeyClient_set_def redis_set_fails_def)
  show ?thesis
    using convert_two_token_alert s
      store_failure_is_http_500 [OF convert_two_token_alert, of redis_set_fails
        "fcm_replying True 2 0" "RedisError ''read only''"]
    by simp
qed

section \<open>The batch processor\<close>

text \<open>One pass of the loop body appends one response, and the response does not depend
  on the state the pass starts from.\<close>

lemma batch_item_results:
  "bs_results (batch_item now mx f rd q st) = bs_results st @ [item_response now mx f rd q]"
proof (cases "convert_request now mx q")
  case (Inl e)
  then show ?thesis
    by (simp add: batch_item_def item_response_def batch_except_def batch_init_def)
next
  case (Inr p)
  obtain dts n where p: "p = (dts, n)" by (cases p)
  let ?t = "map token_value (tokens dts)"
  let ?c = "bs_successful_count st"
  have same:
    "iv_sent_count (batch_send f n ?t ?c) = iv_sent_count (batch_send f n ?t 0)"
    "iv_failed_count (batch_send f n ?t ?c) = iv_failed_count (batch_send f n ?t 0)"
    "iv_status (batch_send f n ?t ?c) = iv_status (batch_send f n ?t 0)"
    "iv_error (batch_send f n ?t ?c) = iv_error (batch_send f n ?t 0)"
    "iv_message_id (batch_send f n ?t ?c) = iv_message_id (batch_send f n ?t 0)"
    by (simp_all add: batch_send_def Let_def)
  from Inr p show ?thesis
    by (simp add: batch_item_def item_response_def batch_except_def batch_init_def Let_def
        same split: sum.splits)
qed

lemma batch_loop_results:
  "bs_results (batch_loop now mx fcm r i qs st)
     = bs_results st
       @ map (\<lambda>j. item_response now mx (fcm (i + j)) (r (i + j)) (qs ! j)) [0..<length qs]"
proof (induction qs arbitrary: i st)
  case Nil
  show ?case by simp
next
  case (Cons q qs)
  have "[0..<Suc (length qs)] = 0 # [Suc 0..<Suc (length qs)]"
    by (rule upt_conv_Cons) simp
  then have shift: "[0..<length (q # qs)] = 0 # map Suc [0..<length qs]"
    by (simp only: map_Suc_upt list.size(4) One_nat_def add_Suc_right add_0_right)
  show ?case
    by (simp only: batch_loop.simps Cons.IH batch_item_results shift)
       (simp add: comp_def)
qed

lemma item_response_convert_failure:
  "convert_request now mx q = Inl e \<Longrightarrow>
     item_response now mx f rd q
       = \<lparr>success = False, results = [], total_sent = 0, total_failed = 1,
          total_targets = 0, message = Failed_to_process e\<rparr>"
  by (simp add: item_response_def batch_item_def batch_except_def batch_init_def)

lemma item_response_store_failure:
  "convert_request now mx q = Inr (dts, n) \<Longrightarrow> \<forall>v. ValkeyClient_set rd v = Inl e \<Longrightarrow>
     item_response now mx f rd q
       = \<lparr>success = False, results = [], total_sent = 0, total_failed = 1,
          total_targets = 0, message = Failed_to_process e\<rparr>"
  by (simp add: item_response_def batch_item_def batch_except_def batch_init_def Let_def)

text \<open>
  Claim C6 as stated fails: the batch response does not always hold the per-item
  results. A batch of one valid request is processed, its item succeeds, the closing
  publish of the batch event raises, and the caller gets an HTTP error 500 and no
  results.
\<close>

theorem batch_publish_counterexample:
  "map success (bs_results (batch_loop 0 500 (\<lambda>i. fcm_replying True 0 0)
        (\<lambda>i. redis_publish_fails) 0 [alert_request [token_a]] batch_init)) = [True]
   \<and> send_batch_notifications 0 500 (\<lambda>i. fcm_replying True 0 0) (\<lambda>i. redis_publish_fails)
        \<lparr>notifications = [alert_request [token_a]]\<rparr>
       = Inl (HTTPException 500 (RedisError ''connection lost''))"
  by code_simp

text \<open>
  Claim C6, as the code has it. The loop appends one response per request, in the order
  of the requests: the list of results is the list of the requests' own responses, so it
  has as many entries as the batch has requests. A request whose conversion raises (a
  malformed token, an oversized token list, an invalid notification) or whose status
  write raises gets a response with \<open>success = False\<close> and the exception in its message,
  and the requests after it are processed all the same. The handler returns a batch
  response exactly when the closing publish of the batch event succeeds, and that
  response holds exactly these results; when the publish raises, the handler returns an
  HTTP error 500 carrying the store's error, and no results.
\<close>

theorem batch_results_in_order:
  "bs_results (batch_loop now mx fcm r 0 qs batch_init)
     = map (\<lambda>i. item_response now mx (fcm i) (r i) (qs ! i)) [0..<length qs]
   \<and> length (bs_results (batch_loop now mx fcm r 0 qs batch_init)) = length qs
   \<and> (ValkeyClient_publish (r (length qs)) ''notification.batch.sent''
         (Batch \<lparr>be_total_notifications = int (length qs),
                 be_successful_count
                   = bs_successful_count (batch_loop now mx fcm r 0 qs batch_init),
                 be_failed_count
                   = bs_failed_count (batch_loop now mx fcm r 0 qs batch_init)\<rparr>) = Inr k
       \<longrightarrow> (\<exists>resp'. send_batch_notifications now mx fcm r \<lparr>notifications = qs\<rparr> = Inr resp'
             \<and> b_results resp' = map (\<lambda>i. item_response now mx (fcm i) (r i) (qs ! i)) [0..<length qs]
             \<and> length (b_results resp') = length qs
             \<and> total_notifications resp' = int (length qs)))
   \<and> (ValkeyClient_publish (r (length qs)) ''notification.batch.sent''
         (Batch \<lparr>be_total_notifications = int (length qs),
                 be_successful_count
                   = bs_successful_count (batch_loop now mx fcm r 0 qs batch_init),
                 be_failed_count
                   = bs_failed_count (batch_loop now mx fcm r 0 qs batch_init)\<rparr>) = Inl e'
       \<longrightarrow> send_batch_notifications now mx fcm r \<lparr>notifications = qs\<rparr>
             = Inl (HTTPException 500 e'))
   \<and> (send_batch_notifications now mx fcm r \<lparr>notifications = qs\<rparr> = Inr resp \<longrightarrow>
        b_results resp = map (\<lambda>i. item_response now mx (fcm i) (r i) (qs ! i)) [0..<length qs]
        \<and> length (b_results resp) = length qs
        \<and> total_notifications resp = int (length qs))
   \<and> (convert_request now mx q = Inl e \<longrightarrow>
        item_response now mx f rd q
          = \<lparr>success = False, results = [], total_sent = 0, total_failed = 1,
             total_targets = 0, message = Failed_to_process e\<rparr>)
   \<and> (convert_request now mx q = Inr (dts, n) \<and> (\<forall>v. ValkeyClient_set rd v = Inl e) \<longrightarrow>
        item_response now mx f rd q
          = \<lparr>success = False, results = [], total_sent = 0, total_failed = 1,
             total_targets = 0, message = Failed_to_process e\<rparr>)"
proof -
  have res: "bs_results (batch_loop now mx fcm r 0 qs batch_init)
     = map (\<lambda>i. item_response now mx (fcm i) (r i) (qs ! i)) [0..<length qs]"
    by (simp add: batch_loop_results batch_init_def)
  have len: "length (bs_results (batch_loop now mx fcm r 0 qs batch_init)) = length qs"
    by (simp add: res)
  have ok: "ValkeyClient_publish (r (length qs)) ''notification.batch.sent''
         (Batch \<lparr>be_total_notifications = int (length qs),
                 be_successful_count
                   = bs_successful_count (batch_loop now mx fcm r 0 qs batch_init),
                 be_failed_count
                   = bs_failed_count (batch_loop now mx fcm r 0 qs batch_init)\<rparr>) = Inr k
       \<longrightarrow> (\<exists>resp'. send_batch_notifications now mx fcm r \<lparr>notifications = qs\<rparr> = Inr resp'
             \<and> b_results resp' = map (\<lambda>i. item_response now mx (fcm i) (r i) (qs ! i)) [0..<length qs]
             \<and> length (b_results resp') = length qs
             \<and> total_notifications resp' = int (length qs))"
    using res by (simp add: send_batch_notifications_def Let_def)
  have bad: "ValkeyClient_publish (r (length qs)) ''notification.batch.sent''
         (Batch \<lparr>be_total_notifications = int (length qs),
                 be_successful_count
                   = bs_successful_count (batch_loop now mx fcm r 0 qs batch_init),
                 be_failed_count
                   = bs_failed_count (batch_loop now mx fcm r 0 qs batch_init)\<rparr>) = Inl e'
       \<longrightarrow> send_batch_notifications now mx fcm r \<lparr>notifications = qs\<rparr>
             = Inl (HTTPException 500 e')"
    by (simp add: send_batch_notifications_def Let_def)
  have resp: "send_batch_notifications now mx fcm r \<lparr>notifications = qs\<rparr> = Inr resp \<longrightarrow>
        b_results resp = map (\<lambda>i. item_response now mx (fcm i) (r i) (qs ! i)) [0..<length qs]
        \<and> length (b_results resp) = length qs
        \<and> total_notifications resp = int (length qs)"
    using res by (auto simp: send_batch_notifications_def Let_def split: sum.splits)
  have cf: "convert_request now mx q = Inl e \<longrightarrow>
        item_response now mx f rd q
          = \<lparr>success = False, results = [], total_sent = 0, total_failed = 1,
             total_targets = 0, message = Failed_to_process e\<rparr>"
    using item_response_convert_failure [of now mx q e f rd] by (rule impI)
  have sf: "convert_request now mx q = Inr (dts, n) \<and> (\<forall>v. ValkeyClient_set rd v = Inl e) \<longrightarrow>
        item_response now mx f rd q
          = \<lparr>success = False, results = [], total_sent = 0, total_failed = 1,
             total_targets = 0, message = Failed_to_process e\<rparr>"
  proof
    assume h: "convert_request now mx q = Inr (dts, n) \<and> (\<forall>v. ValkeyClient_set rd v = Inl e)"
    from h [THEN conjunct1] h [THEN conjunct2]
    show "item_response now mx f rd q
          = \<lparr>success = False, results = [], total_sent = 0, total_failed = 1,
             total_targets = 0, message = Failed_to_process e\<rparr>"
      by (rule item_response_store_failure)
  qed
  show ?thesis
    by (rule conjI [OF res conjI [OF len conjI [OF ok conjI [OF bad
          conjI [OF resp conjI [OF cf sf]]]]]])
qed

lemma convert_short_token_request:
  "convert_request 0 500 (alert_request [''too-short''])
     = Inl (ValidationError ''DeviceToken'' [(''value'', ''Device token appears to be too short'')])"
  by code_simp

lemma three_request_batch:
  "(case send_batch_notifications 0 500 (\<lambda>i. fcm_replying True 0 0) (\<lambda>i. redis_up)
          \<lparr>notifications = [alert_request [token_a], alert_request [''too-short''], alert_request [token_b]]\<rparr> of
      Inl _ \<Rightarrow> False
    | Inr resp \<Rightarrow> map success (b_results resp) = [True, False, True]
        \<and> map message (b_results resp)
            = [Message ''Batch notification success'',
               Failed_to_process (ValidationError ''DeviceToken'' [(''value'', ''Device token appears to be too short'')]),
               Message ''Batch notification success''])"
  by code_simp

theorem batch_results_in_order_witness:
  "convert_request 0 500 (alert_request [''too-short''])
     = Inl (ValidationError ''DeviceToken'' [(''value'', ''Device token appears to be too short'')])
   \<and> item_response 0 500 (fcm_replying True 0 0) redis_up (alert_request [''too-short''])
       = \<lparr>success = False, results = [], total_sent = 0, total_failed = 1,
          total_targets = 0,
          message = Failed_to_process (ValidationError ''DeviceToken'' [(''value'', ''Device token appears to be too short'')])\<rparr>
   \<and> length (bs_results (batch_loop 0 500 (\<lambda>i. fcm_replying True 0 0) (\<lambda>i. redis_up) 0
        [alert_request [token_a], alert_request [''too-short''], alert_request [token_b]] batch_init))
       = length [alert_request [token_a], alert_request [''too-short''], alert_request [token_b]]
   \<and> (case send_batch_notifications 0 500 (\<lambda>i. fcm_replying True 0 0) (\<lambda>i. redis_up)
          \<lparr>notifications = [alert_request [token_a], alert_request [''too-short''], alert_request [token_b]]\<rparr> of
      Inl _ \<Rightarrow> False
    | Inr resp \<Rightarrow> map success (b_results resp) = [True, False, True]
        \<and> map message (b_results resp)
            = [Message ''Batch notification success'',
               Failed_to_process (ValidationError ''DeviceToken'' [(''value'', ''Device token appears to be too short'')]),
               Message ''Batch notification success''])"
proof -
  note t = batch_results_in_order
    [where now = 0 and mx = 500 and fcm = "\<lambda>i. fcm_replying True 0 0" and r = "\<lambda>i. redis_up"
       and qs = "[alert_request [token_a], alert_request [''too-short''], alert_request [token_b]]"
       and q = "alert_request [''too-short'']" and f = "fcm_replying True 0 0" and rd = redis_up
       and e = "ValidationError ''DeviceToken'' [(''value'', ''Device token appears to be too short'')]"]
  have a: "item_response 0 500 (fcm_replying True 0 0) redis_up (alert_request [''too-short''])
       = \<lparr>success = False, results = [], total_sent = 0, total_failed = 1,
          total_targets = 0,
          message = Failed_to_process (ValidationError ''DeviceToken'' [(''value'', ''Device token appears to be too short'')])\<rparr>"
    using t [THEN conjunct2, THEN conjunct2, THEN conjunct2, THEN conjunct2, THEN conjunct2,
             THEN conjunct1]
      convert_short_token_request
    by (rule mp)
  have b: "length (bs_results (batch_loop 0 500 (\<lambda>i. fcm_replying True 0 0) (\<lambda>i. redis_up) 0
        [alert_request [token_a], alert_request [''too-short''], alert_request [token_b]] batch_init))
       = length [alert_request [token_a], alert_request [''too-short''], alert_request [token_b]]"
    using t [THEN conjunct2, THEN conjunct1] .
  show ?thesis
    using convert_short_token_request a b three_request_batch
    by (simp only: simp_thms)
qed

text \<open>
  Claim C2, evaluated: a batch of two single-token requests, the gateway failing the
  first and sending the second. The response counts one successful notification and no
  failed one, though the first item's own response has \<open>success = False\<close>: the second
  item's assignment \<open>failed_count = 0\<close> has overwritten the batch counter.
\<close>

theorem batch_counters_example:
  "(case send_batch_notifications 0 500 (\<lambda>i. fcm_replying (i = 1) 0 0) (\<lambda>i. redis_up)
          \<lparr>notifications = [alert_request [token_a], alert_request [token_b]]\<rparr> of
      Inl _ \<Rightarrow> False
    | Inr resp \<Rightarrow> total_notifications resp = 2
        \<and> map success (b_results resp) = [False, True]
        \<and> successful_notifications resp = 1
        \<and> failed_notifications resp = 0)"
  by code_simp

end
